theory Spec2Isabelle
  imports Main
begin

section \<open>Data model of the book service (main.py)\<close>

text \<open>
  Python \<^verbatim>\<open>str\<close> values are modelled as \<^typ>\<open>string\<close>, holding the UTF-8 encoding
  of the text (injective, so equality of texts is equality of the byte lists). Python
  \<^verbatim>\<open>int\<close> is unbounded and modelled as \<^typ>\<open>int\<close>.
\<close>

text \<open>
  \<^verbatim>\<open>class BookModel(Base)\<close>: one row of the table \<^verbatim>\<open>books\<close>. The column
  \<^verbatim>\<open>id\<close> is written \<open>id'\<close>, since \<open>id\<close> is the identity function of HOL.
\<close>

record BookModel =
  id' :: int
  title :: string
  author :: string

text \<open>\<^verbatim>\<open>class BookSchema(BaseModel)\<close>: the body of a create request and its response.\<close>

record BookSchema =
  title :: string
  author :: string

text \<open>\<^verbatim>\<open>class BookGetSchema(BaseModel)\<close>: the response shape of list and update.\<close>

record BookGetSchema =
  id' :: int
  title :: string
  author :: string

text \<open>
  \<^verbatim>\<open>class BookUpdateSchema(BaseModel)\<close>: both fields are \<^verbatim>\<open>str | None\<close> with
  default \<^verbatim>\<open>None\<close>.
\<close>

record BookUpdateSchema =
  title :: "string option"
  author :: "string option"

text \<open>\<^verbatim>\<open>class PaginationParams(BaseModel)\<close>, after validation.\<close>

record PaginationParams =
  limit :: int
  offset :: int

text \<open>
  Failures of a request: \<^verbatim>\<open>HTTPException(status_code, detail)\<close> raised by a handler,
  the framework's request-validation error raised while the request is decoded, and the
  ORM's \<^verbatim>\<open>InvalidRequestError\<close> that \<^verbatim>\<open>session.refresh\<close> raises when the row is gone,
  and the \<^verbatim>\<open>OverflowError\<close> that the database driver raises when a statement is given
  an integer outside the engine's signed 64-bit range. No handler catches the last two:
  they leave the handler as they are.
\<close>

datatype error =
    HTTPException (status_code: int) (detail: string)
  | RequestValidationError
  | InvalidRequestError
  | OverflowError

text \<open>A decoded JSON value of a request or response body.\<close>

datatype json =
    JNull
  | JBool bool
  | JInt int
  | JStr string
  | JList "json list"
  | JDict "(string \<times> json) list"

section \<open>Storage: the table \<^verbatim>\<open>books\<close> and the session operations used by the handlers\<close>

text \<open>
  The table is the list of its rows in the order the engine returns them for a
  \<^verbatim>\<open>SELECT\<close> without \<^verbatim>\<open>ORDER BY\<close>. Every request opens its own session on the
  table (\<^verbatim>\<open>get_session\<close>) and the handlers commit at once, so a handler is a function
  from the table before the request to a result and the table after it.
\<close>

type_synonym table = "BookModel list"

text \<open>
  The engine is SQLite (\<^verbatim>\<open>sqlite+aiosqlite:///mydb.db\<close>) and \<^verbatim>\<open>id\<close> is an integer
  primary key that the insert leaves out: the engine assigns 1 in an empty table and
  one more than the largest id in use otherwise.
\<close>

definition next_id :: "table \<Rightarrow> int" where
  "next_id s = (case s of [] \<Rightarrow> 1 | r # rs \<Rightarrow> fold max (map BookModel.id' rs) (BookModel.id' r) + 1)"

text \<open>
  An integer bound to a parameter of a statement must fit the engine's signed 64-bit
  integer; the driver raises \<^verbatim>\<open>OverflowError\<close> for any other.
\<close>

definition fits_int64 :: "int \<Rightarrow> bool" where
  "fits_int64 n = (- 9223372036854775808 \<le> n \<and> n \<le> 9223372036854775807)"

text \<open>\<^verbatim>\<open>session.add(new_book); await session.commit()\<close>: the row is inserted with a fresh id.\<close>

definition session_add :: "string \<Rightarrow> string \<Rightarrow> table \<Rightarrow> table" where
  "session_add t a s = s @ [\<lparr>BookModel.id' = next_id s, title = t, author = a\<rparr>]"

text \<open>
  \<^verbatim>\<open>await session.get(BookModel, book_id)\<close>: the session is new, so the row is selected
  with \<^verbatim>\<open>book_id\<close> bound to the statement; the result is the row with that primary
  key, or \<^verbatim>\<open>None\<close>.
\<close>

definition session_get :: "table \<Rightarrow> int \<Rightarrow> error + BookModel option" where
  "session_get s book_id =
     (if fits_int64 book_id then Inr (find (\<lambda>r. BookModel.id' r = book_id) s)
      else Inl OverflowError)"

text \<open>\<^verbatim>\<open>await session.delete(book); await session.commit()\<close>: delete by primary key.\<close>

definition session_delete :: "BookModel \<Rightarrow> table \<Rightarrow> table" where
  "session_delete book s = filter (\<lambda>r. BookModel.id' r \<noteq> BookModel.id' book) s"

text \<open>
  \<^verbatim>\<open>await session.commit()\<close> with a modified object \<^verbatim>\<open>book\<close> in the session: the
  columns of the row with the object's primary key are written.
\<close>

definition session_commit :: "BookModel \<Rightarrow> table \<Rightarrow> table" where
  "session_commit book s = map (\<lambda>r. if BookModel.id' r = BookModel.id' book then book else r) s"

text \<open>\<^verbatim>\<open>await session.refresh(book)\<close>: the object is read again by its primary key.\<close>

definition session_refresh :: "table \<Rightarrow> BookModel \<Rightarrow> error + BookModel" where
  "session_refresh s book =
     (case session_get s (BookModel.id' book) of
        Inl e \<Rightarrow> Inl e
      | Inr None \<Rightarrow> Inl InvalidRequestError
      | Inr (Some b) \<Rightarrow> Inr b)"

text \<open>
  \<^verbatim>\<open>select(BookModel).limit(l).offset(k)\<close> executed: both numbers are bound to the
  statement. SQLite reads a negative \<^verbatim>\<open>LIMIT\<close> as no limit and a negative
  \<^verbatim>\<open>OFFSET\<close> as 0.
\<close>

definition session_execute_select :: "int \<Rightarrow> int \<Rightarrow> table \<Rightarrow> error + BookModel list" where
  "session_execute_select l k s =
     (if fits_int64 l \<and> fits_int64 k
      then (let rest = drop (nat k) s in Inr (if l < 0 then rest else take (nat l) rest))
      else Inl OverflowError)"

section \<open>Decoding of requests and encoding of responses\<close>

text \<open>
  A JSON object body is a dictionary. \<^verbatim>\<open>BookSchema\<close> needs both keys, each with a
  string value; keys it does not declare are ignored.
\<close>

definition validate_BookSchema :: "(string \<rightharpoonup> json) \<Rightarrow> error + BookSchema" where
  "validate_BookSchema body =
     (case (body ''title'', body ''author'') of
        (Some (JStr t), Some (JStr a)) \<Rightarrow> Inr \<lparr>BookSchema.title = t, author = a\<rparr>
      | _ \<Rightarrow> Inl RequestValidationError)"

text \<open>A field of type \<^verbatim>\<open>str | None = None\<close>: missing or null is \<^verbatim>\<open>None\<close>.\<close>

definition validate_optional_str :: "json option \<Rightarrow> error + string option" where
  "validate_optional_str v =
     (case v of
        None \<Rightarrow> Inr None
      | Some JNull \<Rightarrow> Inr None
      | Some (JStr x) \<Rightarrow> Inr (Some x)
      | Some _ \<Rightarrow> Inl RequestValidationError)"

definition validate_BookUpdateSchema :: "(string \<rightharpoonup> json) \<Rightarrow> error + BookUpdateSchema" where
  "validate_BookUpdateSchema body =
     (case validate_optional_str (body ''title'') of
        Inl e \<Rightarrow> Inl e
      | Inr t \<Rightarrow>
          (case validate_optional_str (body ''author'') of
             Inl e \<Rightarrow> Inl e
           | Inr a \<Rightarrow> Inr \<lparr>BookUpdateSchema.title = t, author = a\<rparr>))"

text \<open>
  \<^verbatim>\<open>limit: int = Field(20, ge=1, le=100)\<close> and \<^verbatim>\<open>offset: int = Field(0, ge=0)\<close>.
  A query parameter arrives as text or is missing; the conversion of the text to an
  integer belongs to the validation library and is the parameter \<open>to_int\<close>, which
  gives \<open>None\<close> for a text that is no integer.
\<close>

definition validate_limit :: "(string \<Rightarrow> int option) \<Rightarrow> string option \<Rightarrow> error + int" where
  "validate_limit to_int q =
     (case q of
        None \<Rightarrow> Inr 20
      | Some x \<Rightarrow>
          (case to_int x of
             None \<Rightarrow> Inl RequestValidationError
           | Some n \<Rightarrow> if 1 \<le> n \<and> n \<le> 100 then Inr n else Inl RequestValidationError))"

definition validate_offset :: "(string \<Rightarrow> int option) \<Rightarrow> string option \<Rightarrow> error + int" where
  "validate_offset to_int q =
     (case q of
        None \<Rightarrow> Inr 0
      | Some x \<Rightarrow>
          (case to_int x of
             None \<Rightarrow> Inl RequestValidationError
           | Some n \<Rightarrow> if 0 \<le> n then Inr n else Inl RequestValidationError))"

definition validate_PaginationParams ::
  "(string \<Rightarrow> int option) \<Rightarrow> string option \<Rightarrow> string option \<Rightarrow> error + PaginationParams" where
  "validate_PaginationParams to_int ql qo =
     (case validate_limit to_int ql of
        Inl e \<Rightarrow> Inl e
      | Inr l \<Rightarrow>
          (case validate_offset to_int qo of
             Inl e \<Rightarrow> Inl e
           | Inr k \<Rightarrow> Inr \<lparr>limit = l, offset = k\<rparr>))"

text \<open>The response bodies: each schema is written with its declared fields, in order.\<close>

definition dump_BookSchema :: "BookSchema \<Rightarrow> (string \<times> json) list" where
  "dump_BookSchema b =
     [(''title'', JStr (BookSchema.title b)), (''author'', JStr (BookSchema.author b))]"

definition dump_BookGetSchema :: "BookGetSchema \<Rightarrow> (string \<times> json) list" where
  "dump_BookGetSchema b =
     [(''id'', JInt (BookGetSchema.id' b)),
      (''title'', JStr (BookGetSchema.title b)),
      (''author'', JStr (BookGetSchema.author b))]"

text \<open>A \<^verbatim>\<open>BookModel\<close> object returned under \<^verbatim>\<open>response_model=BookGetSchema\<close>.\<close>

definition to_BookGetSchema :: "BookModel \<Rightarrow> BookGetSchema" where
  "to_BookGetSchema b =
     \<lparr>BookGetSchema.id' = BookModel.id' b,
      title = BookModel.title b,
      author = BookModel.author b\<rparr>"

text \<open>\<^verbatim>\<open>str(n)\<close> for an integer, as the f-string of \<^verbatim>\<open>delete_book\<close> formats it.\<close>

function str_nat :: "nat \<Rightarrow> string" where
  "str_nat n =
     (if n < 10 then [char_of (48 + n)]
      else str_nat (n div 10) @ [char_of (48 + n mod 10)])"
  by pat_completeness auto
termination
  by (relation "measure (\<lambda>n. n)") auto

declare str_nat.simps [simp del]

definition str_int :: "int \<Rightarrow> string" where
  "str_int i = (if i < 0 then CHR ''-'' # str_nat (nat (- i)) else str_nat (nat i))"

text \<open>
  Reading a decimal numeral back: the inverse of \<^verbatim>\<open>str\<close> on integers, used to state
  that \<open>str_int\<close> writes the decimal numeral of its argument.
\<close>

definition read_nat :: "string \<Rightarrow> nat" where
  "read_nat cs = foldl (\<lambda>n c. 10 * n + (of_char c - 48)) 0 cs"

definition read_int :: "string \<Rightarrow> int" where
  "read_int cs =
     (case cs of
        [] \<Rightarrow> 0
      | c # ds \<Rightarrow> if c = CHR ''-'' then - int (read_nat ds) else int (read_nat cs))"

section \<open>The handlers\<close>

text \<open>The literal of \<^verbatim>\<open>detail=\<close> in both \<^verbatim>\<open>HTTPException(status_code=404, ...)\<close>.\<close>

definition not_found_detail :: string where
  "not_found_detail =
     [CHR 0xD0, CHR 0x9A, CHR 0xD0, CHR 0xBD, CHR 0xD0, CHR 0xB8, CHR 0xD0, CHR 0xB3,
      CHR 0xD0, CHR 0xB0, CHR 0x20, CHR 0xD0, CHR 0xBD, CHR 0xD0, CHR 0xB5, CHR 0x20,
      CHR 0xD0, CHR 0xBD, CHR 0xD0, CHR 0xB0, CHR 0xD0, CHR 0xB9, CHR 0xD0, CHR 0xB4,
      CHR 0xD0, CHR 0xB5, CHR 0xD0, CHR 0xBD, CHR 0xD0, CHR 0xB0]"

text \<open>The two literal parts of the f-string in \<^verbatim>\<open>delete_book\<close>, around \<^verbatim>\<open>{book_id}\<close>.\<close>

definition deleted_prefix :: string where
  "deleted_prefix =
     [CHR 0xD0, CHR 0x9A, CHR 0xD0, CHR 0xBD, CHR 0xD0, CHR 0xB8, CHR 0xD0, CHR 0xB3,
      CHR 0xD0, CHR 0xB0, CHR 0x20, CHR 0xD1, CHR 0x81, CHR 0x20] @ ''id=''"

definition deleted_suffix :: string where
  "deleted_suffix =
     [CHR 0x20, CHR 0xD1, CHR 0x83, CHR 0xD0, CHR 0xB4, CHR 0xD0, CHR 0xB0, CHR 0xD0,
      CHR 0xBB, CHR 0xD0, CHR 0xB5, CHR 0xD0, CHR 0xBD, CHR 0xD0, CHR 0xB0]"

text \<open>\<^verbatim>\<open>add_book\<close>: insert, commit, return the request body.\<close>

definition add_book :: "BookSchema \<Rightarrow> table \<Rightarrow> (error + BookSchema) \<times> table" where
  "add_book book s = (Inr book, session_add (BookSchema.title book) (BookSchema.author book) s)"

text \<open>\<^verbatim>\<open>get_books\<close>: one select with the limit and the offset of the parameters.\<close>

definition get_books :: "PaginationParams \<Rightarrow> table \<Rightarrow> (error + BookGetSchema list) \<times> table" where
  "get_books pagination s =
     (case session_execute_select (limit pagination) (offset pagination) s of
        Inl e \<Rightarrow> (Inl e, s)
      | Inr result \<Rightarrow> (Inr (map to_BookGetSchema result), s))"

text \<open>\<^verbatim>\<open>delete_book\<close>.\<close>

definition delete_book :: "int \<Rightarrow> table \<Rightarrow> (error + (string \<times> string) list) \<times> table" where
  "delete_book book_id s =
     (case session_get s book_id of
        Inl e \<Rightarrow> (Inl e, s)
      | Inr None \<Rightarrow> (Inl (HTTPException 404 not_found_detail), s)
      | Inr (Some book) \<Rightarrow>
          (Inr [(''detail'', deleted_prefix @ str_int book_id @ deleted_suffix)],
           session_delete book s))"

text \<open>\<^verbatim>\<open>update_book\<close>.\<close>

definition update_book :: "int \<Rightarrow> BookUpdateSchema \<Rightarrow> table \<Rightarrow> (error + BookGetSchema) \<times> table" where
  "update_book book_id book_data s =
     (case session_get s book_id of
        Inl e \<Rightarrow> (Inl e, s)
      | Inr None \<Rightarrow> (Inl (HTTPException 404 not_found_detail), s)
      | Inr (Some book) \<Rightarrow>
          (let book1 = (case BookUpdateSchema.title book_data of
                          None \<Rightarrow> book
                        | Some t \<Rightarrow> book\<lparr>BookModel.title := t\<rparr>);
               book2 = (case BookUpdateSchema.author book_data of
                          None \<Rightarrow> book1
                        | Some a \<Rightarrow> book1\<lparr>BookModel.author := a\<rparr>);
               s' = session_commit book2 s
           in (case session_refresh s' book2 of
                 Inl e \<Rightarrow> (Inl e, s')
               | Inr b \<Rightarrow> (Inr (to_BookGetSchema b), s'))))"

section \<open>The routes: a request is decoded, then the handler runs\<close>

text \<open>
  The framework decodes the body and the query parameters into the handler's argument
  types before it calls the handler. When that fails the handler is not called, so the
  table is not read or written.
\<close>

definition POST_books :: "(string \<rightharpoonup> json) \<Rightarrow> table \<Rightarrow> (error + BookSchema) \<times> table" where
  "POST_books body s =
     (case validate_BookSchema body of
        Inl e \<Rightarrow> (Inl e, s)
      | Inr book \<Rightarrow> add_book book s)"

definition GET_books ::
  "(string \<Rightarrow> int option) \<Rightarrow> string option \<Rightarrow> string option \<Rightarrow> table
     \<Rightarrow> (error + BookGetSchema list) \<times> table" where
  "GET_books to_int ql qo s =
     (case validate_PaginationParams to_int ql qo of
        Inl e \<Rightarrow> (Inl e, s)
      | Inr pagination \<Rightarrow> get_books pagination s)"

definition PUT_books :: "int \<Rightarrow> (string \<rightharpoonup> json) \<Rightarrow> table \<Rightarrow> (error + BookGetSchema) \<times> table" where
  "PUT_books book_id body s =
     (case validate_BookUpdateSchema body of
        Inl e \<Rightarrow> (Inl e, s)
      | Inr book_data \<Rightarrow> update_book book_id book_data s)"

section \<open>Facts about the session operations\<close>

lemma session_get_SomeD:
  "session_get s k = Inr (Some b) \<Longrightarrow> BookModel.id' b = k \<and> b \<in> set s \<and> fits_int64 k"
  by (auto simp: session_get_def find_Some_iff split: if_splits)

lemma session_get_None_iff:
  "session_get s k = Inr None \<longleftrightarrow> fits_int64 k \<and> k \<notin> set (map BookModel.id' s)"
  by (auto simp: session_get_def find_None_iff)

lemma session_get_overflow_iff:
  "session_get s k = Inl e \<longleftrightarrow> \<not> fits_int64 k \<and> e = OverflowError"
  by (auto simp: session_get_def)

lemma find_commit:
  "find (\<lambda>r. BookModel.id' r = j) (session_commit b s) =
     (if j = BookModel.id' b
      then (case find (\<lambda>r. BookModel.id' r = j) s of None \<Rightarrow> None | Some _ \<Rightarrow> Some b)
      else find (\<lambda>r. BookModel.id' r = j) s)"
  by (induction s) (auto simp: session_commit_def)

lemma session_get_commit:
  "session_get (session_commit b s) j =
     (if j = BookModel.id' b
      then (case session_get s j of Inr (Some _) \<Rightarrow> Inr (Some b) | r \<Rightarrow> r)
      else session_get s j)"
  by (simp add: session_get_def find_commit split: option.splits)

lemma ids_commit: "map BookModel.id' (session_commit b s) = map BookModel.id' s"
  by (induction s) (auto simp: session_commit_def)

lemma session_commit_nth:
  "i < length s \<Longrightarrow> BookModel.id' (s ! i) \<noteq> BookModel.id' b \<Longrightarrow> session_commit b s ! i = s ! i"
  by (simp add: session_commit_def)

lemma find_delete:
  "find (\<lambda>r. BookModel.id' r = j) (session_delete b s) =
     (if j = BookModel.id' b then None else find (\<lambda>r. BookModel.id' r = j) s)"
  by (induction s) (auto simp: session_delete_def)

lemma session_get_delete:
  "session_get (session_delete b s) j =
     (if j = BookModel.id' b then (case session_get s j of Inl e \<Rightarrow> Inl e | Inr _ \<Rightarrow> Inr None)
      else session_get s j)"
  by (simp add: session_get_def find_delete)

lemma fold_max_ge: "(a::int) \<le> fold max xs a"
proof (induction xs arbitrary: a)
  case Nil
  show ?case by simp
next
  case (Cons x xs)
  have "a \<le> max x a" by simp
  also have "\<dots> \<le> fold max xs (max x a)" by (rule Cons.IH)
  finally show ?case by simp
qed

lemma fold_max_mem: "x \<in> set xs \<Longrightarrow> (x::int) \<le> fold max xs a"
proof (induction xs arbitrary: a)
  case Nil
  then show ?case by simp
next
  case (Cons y ys)
  show ?case
  proof (cases "x = y")
    case True
    have "x \<le> max y a" using True by simp
    also have "\<dots> \<le> fold max ys (max y a)" by (rule fold_max_ge)
    finally show ?thesis by simp
  next
    case False
    with Cons.prems have "x \<in> set ys" by simp
    then show ?thesis using Cons.IH by simp
  qed
qed

lemma next_id_fresh: "r \<in> set s \<Longrightarrow> BookModel.id' r < next_id s"
proof (cases s)
  case Nil
  assume "r \<in> set s"
  with Nil show ?thesis by simp
next
  case (Cons r0 rs)
  assume "r \<in> set s"
  with Cons have "r = r0 \<or> BookModel.id' r \<in> set (map BookModel.id' rs)" by auto
  then have "BookModel.id' r \<le> fold max (map BookModel.id' rs) (BookModel.id' r0)"
    using fold_max_ge fold_max_mem by blast
  with Cons show ?thesis by (simp add: next_id_def)
qed

lemma next_id_not_used: "next_id s \<notin> set (map BookModel.id' s)"
  using next_id_fresh by fastforce

lemma next_id_session_add: "next_id (session_add t a s) = next_id s + 1"
proof (cases s)
  case Nil
  then show ?thesis by (simp add: session_add_def next_id_def)
next
  case (Cons r rs)
  have "fold max (map BookModel.id' rs) (BookModel.id' r) < next_id s"
    using Cons by (simp add: next_id_def)
  then show ?thesis using Cons
    by (simp add: session_add_def next_id_def max_def)
qed

lemma find_append_cases:
  "find P (xs @ ys) = (case find P xs of Some x \<Rightarrow> Some x | None \<Rightarrow> find P ys)"
  by (induction xs) auto

lemma session_get_add:
  "session_get (session_add t a s) j =
     (case session_get s j of
        Inl e \<Rightarrow> Inl e
      | Inr (Some b) \<Rightarrow> Inr (Some b)
      | Inr None \<Rightarrow>
          if j = next_id s
          then Inr (Some \<lparr>BookModel.id' = next_id s, title = t, author = a\<rparr>)
          else Inr None)"
  by (simp add: session_get_def session_add_def find_append_cases split: option.splits)

text \<open>On a table with pairwise distinct ids every operation keeps them so.\<close>

lemma commit_same_row:
  assumes "distinct (map BookModel.id' s)" and "session_get s k = Inr (Some b)"
  shows "session_commit b s = s"
proof -
  have b: "b \<in> set s" and "BookModel.id' b = k"
    using assms(2) session_get_SomeD by blast+
  have inj: "inj_on BookModel.id' (set s)"
    using assms(1) by (simp add: distinct_map)
  have "(if BookModel.id' r = BookModel.id' b then b else r) = r" if "r \<in> set s" for r
    using that b inj by (auto dest: inj_onD)
  then show ?thesis
    by (simp add: session_commit_def map_idI)
qed

lemma pk_session_add: "distinct (map BookModel.id' s) \<Longrightarrow> distinct (map BookModel.id' (session_add t a s))"
  using next_id_not_used [of s] by (simp add: session_add_def)

lemma pk_session_delete: "distinct (map BookModel.id' s) \<Longrightarrow> distinct (map BookModel.id' (session_delete b s))"
  by (simp add: session_delete_def distinct_map_filter)

lemma pk_session_commit: "distinct (map BookModel.id' s) \<Longrightarrow> distinct (map BookModel.id' (session_commit b s))"
  by (simp add: ids_commit)

section \<open>\<open>str_int\<close> writes the decimal numeral\<close>

lemma of_char_digit: "d < 10 \<Longrightarrow> of_char (char_of (48 + d :: nat)) = 48 + d"
  by (simp add: of_char_of)

lemma read_nat_snoc: "read_nat (cs @ [c]) = 10 * read_nat cs + (of_char c - 48)"
  by (simp add: read_nat_def)

lemma read_nat_str_nat: "read_nat (str_nat n) = n"
proof (induction n rule: str_nat.induct)
  case (1 n)
  show ?case
  proof (cases "n < 10")
    case True
    then have "str_nat n = [char_of (48 + n)]"
      by (simp add: str_nat.simps)
    then show ?thesis
      using True by (simp add: read_nat_def of_char_digit)
  next
    case False
    then have s: "str_nat n = str_nat (n div 10) @ [char_of (48 + n mod 10)]"
      by (subst str_nat.simps) simp
    have "read_nat (str_nat (n div 10)) = n div 10"
      using False by (rule "1.IH")
    then show ?thesis
      unfolding s read_nat_snoc by (simp add: of_char_digit)
  qed
qed

lemma str_nat_head: "\<exists>(d::nat) cs. d < 10 \<and> str_nat n = char_of (48 + d) # cs"
proof (induction n rule: str_nat.induct)
  case (1 n)
  show ?case
  proof (cases "n < 10")
    case True
    then have "str_nat n = [char_of (48 + n)]"
      by (simp add: str_nat.simps)
    with True show ?thesis by blast
  next
    case False
    then have s: "str_nat n = str_nat (n div 10) @ [char_of (48 + n mod 10)]"
      by (subst str_nat.simps) simp
    from False "1.IH" obtain d :: nat and cs where "d < 10" "str_nat (n div 10) = char_of (48 + d) # cs"
      by blast
    with s show ?thesis by auto
  qed
qed

lemma read_int_str_int: "read_int (str_int i) = i"
proof -
  obtain d :: nat and cs where d: "d < 10" and s: "str_nat (nat (\<bar>i\<bar>)) = char_of (48 + d) # cs"
    using str_nat_head by blast
  have "of_char (char_of (48 + d)) \<noteq> (of_char CHR ''-'' :: nat)"
    using d by (simp add: of_char_digit)
  then have ne: "char_of (48 + d) \<noteq> CHR ''-''"
    by metis
  show ?thesis
  proof (cases "i < 0")
    case True
    then show ?thesis
      by (simp add: str_int_def read_int_def read_nat_str_nat)
  next
    case False
    have "read_nat (str_nat (nat i)) = nat i" by (rule read_nat_str_nat)
    then show ?thesis
      using False ne s by (simp add: str_int_def read_int_def)
  qed
qed

lemma str_int_inj: "str_int i = str_int j \<Longrightarrow> i = j"
  by (metis read_int_str_int)

section \<open>Update\<close>

text \<open>
  Claim C1. For a book id that exists, \<^verbatim>\<open>update_book\<close> writes exactly the fields that
  the body supplies non-null and keeps the others: the stored record afterwards has the
  old id, the supplied title (or the old one when none is supplied) and the supplied
  author (or the old one), the response is that record, the ids of the table are the
  same and every row with another id is untouched. In particular a body with only
  \<^verbatim>\<open>title\<close> changes the title and keeps the author, and the empty body \<^verbatim>\<open>{}\<close>
  keeps both, and on a table whose ids are pairwise distinct the empty body leaves the
  whole table as it was.
\<close>
theorem update_book_applies_supplied_fields:
  assumes "session_get s book_id = Inr (Some b)"
  shows
    "(let b' = \<lparr>BookModel.id' = BookModel.id' b,
                 title = (case BookUpdateSchema.title book_data of
                            None \<Rightarrow> BookModel.title b | Some t \<Rightarrow> t),
                 author = (case BookUpdateSchema.author book_data of
                            None \<Rightarrow> BookModel.author b | Some a \<Rightarrow> a)\<rparr>;
          s' = snd (update_book book_id book_data s)
      in fst (update_book book_id book_data s) = Inr (to_BookGetSchema b')
       \<and> session_get s' book_id = Inr (Some b')
       \<and> BookModel.id' b' = book_id
       \<and> map BookModel.id' s' = map BookModel.id' s
       \<and> (\<forall>i < length s. BookModel.id' (s ! i) \<noteq> book_id \<longrightarrow> s' ! i = s ! i))
     \<and> session_get (snd (PUT_books book_id [''title'' \<mapsto> JStr t] s)) book_id
         = Inr (Some (b\<lparr>BookModel.title := t\<rparr>))
     \<and> session_get (snd (PUT_books book_id Map.empty s)) book_id = Inr (Some b)
     \<and> (distinct (map BookModel.id' s) \<longrightarrow> snd (PUT_books book_id Map.empty s) = s)"
proof -
  have idb: "BookModel.id' b = book_id"
    using assms session_get_SomeD by blast
  define c where "c = (case BookUpdateSchema.author book_data of
        None \<Rightarrow> (case BookUpdateSchema.title book_data of None \<Rightarrow> b | Some t \<Rightarrow> b\<lparr>BookModel.title := t\<rparr>)
      | Some a \<Rightarrow> (case BookUpdateSchema.title book_data of None \<Rightarrow> b | Some t \<Rightarrow> b\<lparr>BookModel.title := t\<rparr>)\<lparr>BookModel.author := a\<rparr>)"
  have idc: "BookModel.id' c = book_id"
    using idb by (simp add: c_def split: option.splits)
  have gen: "update_book book_id d s =
      (Inr (to_BookGetSchema c'), session_commit c' s)"
    if "c' = (case BookUpdateSchema.author d of
        None \<Rightarrow> (case BookUpdateSchema.title d of None \<Rightarrow> b | Some t \<Rightarrow> b\<lparr>BookModel.title := t\<rparr>)
      | Some a \<Rightarrow> (case BookUpdateSchema.title d of None \<Rightarrow> b | Some t \<Rightarrow> b\<lparr>BookModel.title := t\<rparr>)\<lparr>BookModel.author := a\<rparr>)"
    for d c'
  proof -
    have "BookModel.id' c' = book_id" using idb that by (simp split: option.splits)
    then have "session_refresh (session_commit c' s) c' = Inr c'"
      using assms by (simp add: session_refresh_def session_get_commit)
    then show ?thesis using assms that
      by (simp add: update_book_def Let_def split: option.splits)
  qed
  have c_eq: "c = \<lparr>BookModel.id' = BookModel.id' b,
                 title = (case BookUpdateSchema.title book_data of
                            None \<Rightarrow> BookModel.title b | Some t \<Rightarrow> t),
                 author = (case BookUpdateSchema.author book_data of
                            None \<Rightarrow> BookModel.author b | Some a \<Rightarrow> a)\<rparr>"
    by (simp add: c_def split: option.splits)
  have u: "update_book book_id book_data s = (Inr (to_BookGetSchema c), session_commit c s)"
    by (rule gen) (simp add: c_def)
  have g: "session_get (session_commit c s) book_id = Inr (Some c)"
    using assms idc by (simp add: session_get_commit)
  have fr: "\<forall>i < length s. BookModel.id' (s ! i) \<noteq> book_id \<longrightarrow> session_commit c s ! i = s ! i"
    using idc by (simp add: session_commit_nth)
  have part1: "(let b' = \<lparr>BookModel.id' = BookModel.id' b,
                 title = (case BookUpdateSchema.title book_data of
                            None \<Rightarrow> BookModel.title b | Some t \<Rightarrow> t),
                 author = (case BookUpdateSchema.author book_data of
                            None \<Rightarrow> BookModel.author b | Some a \<Rightarrow> a)\<rparr>;
          s' = snd (update_book book_id book_data s)
      in fst (update_book book_id book_data s) = Inr (to_BookGetSchema b')
       \<and> session_get s' book_id = Inr (Some b')
       \<and> BookModel.id' b' = book_id
       \<and> map BookModel.id' s' = map BookModel.id' s
       \<and> (\<forall>i < length s. BookModel.id' (s ! i) \<noteq> book_id \<longrightarrow> s' ! i = s ! i))"
    unfolding Let_def c_eq [symmetric] u fst_conv snd_conv
    using g idc fr ids_commit by blast
  have v1: "validate_BookUpdateSchema [''title'' \<mapsto> JStr t]
             = Inr \<lparr>BookUpdateSchema.title = Some t, author = None\<rparr>"
    by (simp add: validate_BookUpdateSchema_def validate_optional_str_def)
  have v2: "validate_BookUpdateSchema Map.empty
             = Inr \<lparr>BookUpdateSchema.title = None, author = None\<rparr>"
    by (simp add: validate_BookUpdateSchema_def validate_optional_str_def)
  have p1: "PUT_books book_id [''title'' \<mapsto> JStr t] s
             = (Inr (to_BookGetSchema (b\<lparr>BookModel.title := t\<rparr>)), session_commit (b\<lparr>BookModel.title := t\<rparr>) s)"
    unfolding PUT_books_def v1 by (simp add: gen)
  have p2: "PUT_books book_id Map.empty s = (Inr (to_BookGetSchema b), session_commit b s)"
    unfolding PUT_books_def v2 by (simp add: gen)
  have part2: "session_get (snd (PUT_books book_id [''title'' \<mapsto> JStr t] s)) book_id
         = Inr (Some (b\<lparr>BookModel.title := t\<rparr>))"
    unfolding p1 using assms idb by (simp add: session_get_commit)
  have part3: "session_get (snd (PUT_books book_id Map.empty s)) book_id = Inr (Some b)"
    unfolding p2 using assms idb by (simp add: session_get_commit)
  have part4: "distinct (map BookModel.id' s) \<longrightarrow> snd (PUT_books book_id Map.empty s) = s"
    unfolding p2 using assms by (simp add: commit_same_row)
  from part1 part2 part3 part4 show ?thesis by blast
qed

theorem update_book_applies_supplied_fields_witness:
  "session_get [\<lparr>BookModel.id' = 1, title = ''Dune'', author = ''Herbert''\<rparr>] 1
     = Inr (Some \<lparr>BookModel.id' = 1, title = ''Dune'', author = ''Herbert''\<rparr>)
   \<and> fst (update_book 1 \<lparr>BookUpdateSchema.title = None, author = Some ''F. Herbert''\<rparr>
            [\<lparr>BookModel.id' = 1, title = ''Dune'', author = ''Herbert''\<rparr>])
       = Inr \<lparr>BookGetSchema.id' = 1, title = ''Dune'', author = ''F. Herbert''\<rparr>
   \<and> session_get (snd (update_book 1 \<lparr>BookUpdateSchema.title = None, author = Some ''F. Herbert''\<rparr>
            [\<lparr>BookModel.id' = 1, title = ''Dune'', author = ''Herbert''\<rparr>])) 1
       = Inr (Some \<lparr>BookModel.id' = 1, title = ''Dune'', author = ''F. Herbert''\<rparr>)
   \<and> session_get (snd (PUT_books 1 [''title'' \<mapsto> JStr ''Arrakis'']
            [\<lparr>BookModel.id' = 1, title = ''Dune'', author = ''Herbert''\<rparr>])) 1
       = Inr (Some \<lparr>BookModel.id' = 1, title = ''Arrakis'', author = ''Herbert''\<rparr>)
   \<and> session_get (snd (PUT_books 1 Map.empty
            [\<lparr>BookModel.id' = 1, title = ''Dune'', author = ''Herbert''\<rparr>])) 1
       = Inr (Some \<lparr>BookModel.id' = 1, title = ''Dune'', author = ''Herbert''\<rparr>)
   \<and> snd (PUT_books 1 Map.empty
            [\<lparr>BookModel.id' = 1, title = ''Dune'', author = ''Herbert''\<rparr>])
       = [\<lparr>BookModel.id' = 1, title = ''Dune'', author = ''Herbert''\<rparr>]"
proof -
  have h: "session_get [\<lparr>BookModel.id' = 1, title = ''Dune'', author = ''Herbert''\<rparr>] 1
     = Inr (Some \<lparr>BookModel.id' = 1, title = ''Dune'', author = ''Herbert''\<rparr>)"
    by (simp add: session_get_def fits_int64_def)
  show ?thesis
    using h update_book_applies_supplied_fields [OF h,
        of "\<lparr>BookUpdateSchema.title = None, author = Some ''F. Herbert''\<rparr>" "''Arrakis''"]
    by (simp add: Let_def to_BookGetSchema_def)
qed

section \<open>Update is idempotent\<close>

text \<open>
  Claim C6. For every book id and every update body, \<^verbatim>\<open>update_book\<close> run a second time
  on the table the first run left gives the same response and the same table as the
  first run; the same holds for the route with an undecoded body.
\<close>

theorem update_book_idempotent:
  "update_book book_id book_data (snd (update_book book_id book_data s))
     = update_book book_id book_data s
   \<and> PUT_books book_id body (snd (PUT_books book_id body s)) = PUT_books book_id body s"
proof -
  have u: "update_book k d (snd (update_book k d s)) = update_book k d s" for k d
  proof (cases "session_get s k")
    case (Inl e)
    then show ?thesis by (simp add: update_book_def)
  next
    case (Inr found)
    then show ?thesis
    proof (cases found)
      case None
      with Inr show ?thesis by (simp add: update_book_def)
    next
      case (Some b)
      with Inr have Some: "session_get s k = Inr (Some b)" by simp
      define c where "c = (case BookUpdateSchema.author d of
          None \<Rightarrow> (case BookUpdateSchema.title d of None \<Rightarrow> b | Some t \<Rightarrow> b\<lparr>BookModel.title := t\<rparr>)
        | Some a \<Rightarrow> (case BookUpdateSchema.title d of None \<Rightarrow> b | Some t \<Rightarrow> b\<lparr>BookModel.title := t\<rparr>)\<lparr>BookModel.author := a\<rparr>)"
      have idb: "BookModel.id' b = k"
        using Some session_get_SomeD by blast
      have idc: "BookModel.id' c = k"
        using idb by (simp add: c_def split: option.splits)
      have g: "session_get (session_commit c s) k = Inr (Some c)"
        using Some idc by (simp add: session_get_commit)
      have first: "update_book k d s = (Inr (to_BookGetSchema c), session_commit c s)"
        using Some g idc
        by (simp add: update_book_def Let_def session_refresh_def c_def split: option.splits)
      have again: "(case BookUpdateSchema.author d of
          None \<Rightarrow> (case BookUpdateSchema.title d of None \<Rightarrow> c | Some t \<Rightarrow> c\<lparr>BookModel.title := t\<rparr>)
        | Some a \<Rightarrow> (case BookUpdateSchema.title d of None \<Rightarrow> c | Some t \<Rightarrow> c\<lparr>BookModel.title := t\<rparr>)\<lparr>BookModel.author := a\<rparr>) = c"
        by (simp add: c_def split: option.splits)
      have cc: "session_commit c (session_commit c s) = session_commit c s"
        by (simp add: session_commit_def)
      have "update_book k d (session_commit c s) = (Inr (to_BookGetSchema c), session_commit c s)"
        using g idc again cc
        by (simp add: update_book_def Let_def session_refresh_def split: option.splits)
      with first show ?thesis by simp
    qed
  qed
  have p: "PUT_books book_id body (snd (PUT_books book_id body s)) = PUT_books book_id body s"
    by (cases "validate_BookUpdateSchema body") (simp_all add: PUT_books_def u)
  from u p show ?thesis by blast
qed

theorem update_book_idempotent_witness:
  "update_book 1 \<lparr>BookUpdateSchema.title = None, author = Some ''F. Herbert''\<rparr>
     (snd (update_book 1 \<lparr>BookUpdateSchema.title = None, author = Some ''F. Herbert''\<rparr>
        [\<lparr>BookModel.id' = 1, title = ''Dune'', author = ''Herbert''\<rparr>]))
   = (Inr \<lparr>BookGetSchema.id' = 1, title = ''Dune'', author = ''F. Herbert''\<rparr>,
      [\<lparr>BookModel.id' = 1, title = ''Dune'', author = ''F. Herbert''\<rparr>])"
proof -
  have "update_book 1 \<lparr>BookUpdateSchema.title = None, author = Some ''F. Herbert''\<rparr>
        [\<lparr>BookModel.id' = 1, title = ''Dune'', author = ''Herbert''\<rparr>]
      = (Inr \<lparr>BookGetSchema.id' = 1, title = ''Dune'', author = ''F. Herbert''\<rparr>,
         [\<lparr>BookModel.id' = 1, title = ''Dune'', author = ''F. Herbert''\<rparr>])"
    by (simp add: update_book_def session_get_def session_commit_def session_refresh_def
        to_BookGetSchema_def fits_int64_def)
  then show ?thesis
    using update_book_idempotent
      [of 1 "\<lparr>BookUpdateSchema.title = None, author = Some ''F. Herbert''\<rparr>"
          "[\<lparr>BookModel.id' = 1, title = ''Dune'', author = ''Herbert''\<rparr>]"]
    by simp
qed

section \<open>Unknown ids\<close>

text \<open>
  Claim C2 (amended). For a book id that fits the engine's signed 64-bit integer and is
  not in the table, \<^verbatim>\<open>update_book\<close> and \<^verbatim>\<open>delete_book\<close> both fail with
  \<^verbatim>\<open>HTTPException\<close> of status code 404 and leave the table as it was. The detail
  message is the literal of the source, the Russian text for "book not found"
  (\<open>not_found_detail\<close>), not the English text of the claim. For an id outside that
  range the lookup itself fails before the test for \<^verbatim>\<open>None\<close>, as the counterexample
  shows at 2 to the power 63.
\<close>

theorem absent_id_not_found:
  assumes "fits_int64 book_id" and "book_id \<notin> set (map BookModel.id' s)"
  shows "update_book book_id book_data s = (Inl (HTTPException 404 not_found_detail), s)
       \<and> delete_book book_id s = (Inl (HTTPException 404 not_found_detail), s)"
proof -
  have "session_get s book_id = Inr None"
    using assms by (simp add: session_get_None_iff)
  then show ?thesis
    by (simp add: update_book_def delete_book_def)
qed

theorem absent_id_not_found_witness:
  "fits_int64 2
   \<and> 2 \<notin> set (map BookModel.id' [\<lparr>BookModel.id' = 1, title = ''Dune'', author = ''Herbert''\<rparr>])
   \<and> update_book 2 \<lparr>BookUpdateSchema.title = Some ''Emma'', author = None\<rparr>
        [\<lparr>BookModel.id' = 1, title = ''Dune'', author = ''Herbert''\<rparr>]
      = (Inl (HTTPException 404 not_found_detail),
         [\<lparr>BookModel.id' = 1, title = ''Dune'', author = ''Herbert''\<rparr>])
   \<and> delete_book 2 [\<lparr>BookModel.id' = 1, title = ''Dune'', author = ''Herbert''\<rparr>]
      = (Inl (HTTPException 404 not_found_detail),
         [\<lparr>BookModel.id' = 1, title = ''Dune'', author = ''Herbert''\<rparr>])"
proof -
  have h1: "fits_int64 2"
    by (simp add: fits_int64_def)
  have h2: "2 \<notin> set (map BookModel.id' [\<lparr>BookModel.id' = 1, title = ''Dune'', author = ''Herbert''\<rparr>])"
    by simp
  show ?thesis
    using h1 h2
      absent_id_not_found [OF h1 h2, of "\<lparr>BookUpdateSchema.title = Some ''Emma'', author = None\<rparr>"]
    by blast
qed

theorem absent_id_counterexample:
  "9223372036854775808 \<notin> set (map BookModel.id' [])
   \<and> update_book 9223372036854775808 \<lparr>BookUpdateSchema.title = None, author = None\<rparr> []
       = (Inl OverflowError, [])
   \<and> delete_book 9223372036854775808 [] = (Inl OverflowError, [])
   \<and> 1 \<notin> set (map BookModel.id' [])
   \<and> fst (update_book 1 \<lparr>BookUpdateSchema.title = None, author = None\<rparr> [])
       \<noteq> Inl (HTTPException 404 ''book not found'')
   \<and> fst (delete_book 1 []) \<noteq> Inl (HTTPException 404 ''book not found'')"
  by (simp add: session_get_def fits_int64_def update_book_def delete_book_def
      not_found_detail_def)

section \<open>Create\<close>

text \<open>
  Claim C3. For a body with a string \<^verbatim>\<open>title\<close> and a string \<^verbatim>\<open>author\<close>, the create
  route answers with exactly that title and author; the response body has the two keys
  \<^verbatim>\<open>title\<close> and \<^verbatim>\<open>author\<close> and no key \<^verbatim>\<open>id\<close>. The handler's response is its
  argument, whatever the table holds.
\<close>

theorem create_response_echoes_body:
  assumes "body ''title'' = Some (JStr t)" and "body ''author'' = Some (JStr a)"
  shows "fst (POST_books body s) = Inr \<lparr>BookSchema.title = t, author = a\<rparr>
       \<and> dump_BookSchema \<lparr>BookSchema.title = t, author = a\<rparr>
           = [(''title'', JStr t), (''author'', JStr a)]
       \<and> map_of (dump_BookSchema \<lparr>BookSchema.title = t, author = a\<rparr>) ''id'' = None
       \<and> fst (add_book book s) = Inr book"
  using assms
  by (simp add: POST_books_def validate_BookSchema_def add_book_def dump_BookSchema_def)

theorem create_response_echoes_body_witness:
  "[''title'' \<mapsto> JStr ''Dune'', ''author'' \<mapsto> JStr ''Herbert''] ''title'' = Some (JStr ''Dune'')
   \<and> [''title'' \<mapsto> JStr ''Dune'', ''author'' \<mapsto> JStr ''Herbert''] ''author''
       = Some (JStr ''Herbert'')
   \<and> fst (POST_books [''title'' \<mapsto> JStr ''Dune'', ''author'' \<mapsto> JStr ''Herbert'']
            [\<lparr>BookModel.id' = 4, title = ''Emma'', author = ''Austen''\<rparr>])
       = Inr \<lparr>BookSchema.title = ''Dune'', author = ''Herbert''\<rparr>
   \<and> map_of (dump_BookSchema \<lparr>BookSchema.title = ''Dune'', author = ''Herbert''\<rparr>) ''id'' = None"
proof -
  let ?body = "[''title'' \<mapsto> JStr ''Dune'', ''author'' \<mapsto> JStr ''Herbert'']"
  have h1: "?body ''title'' = Some (JStr ''Dune'')"
    by simp
  have h2: "?body ''author'' = Some (JStr ''Herbert'')"
    by simp
  show ?thesis
    using h1 h2 create_response_echoes_body [OF h1 h2]
    by blast
qed

section \<open>Create, then list\<close>

text \<open>
  Claim C9. After \<^verbatim>\<open>add_book\<close> with a title and an author, \<^verbatim>\<open>get_books\<close> with offset 0
  and a limit at least the number of stored records returns a list that contains a
  record with that title and author (the one with the id the insert assigned). The
  limit is one the select can be given, that is, it fits the engine's signed 64-bit
  integer; every limit that passes the validation of the parameters is at most 100.
\<close>

theorem create_then_list:
  assumes "offset p = 0"
    and "int (length (snd (add_book book s))) \<le> limit p"
    and "limit p \<le> 9223372036854775807"
  shows "\<exists>res. fst (get_books p (snd (add_book book s))) = Inr res
       \<and> \<lparr>BookGetSchema.id' = next_id s, title = BookSchema.title book,
           author = BookSchema.author book\<rparr> \<in> set res
       \<and> (\<exists>r \<in> set res. BookGetSchema.title r = BookSchema.title book
                        \<and> BookGetSchema.author r = BookSchema.author book)"
proof -
  define s' where "s' = snd (add_book book s)"
  have s': "s' = s @ [\<lparr>BookModel.id' = next_id s, title = BookSchema.title book,
                      author = BookSchema.author book\<rparr>]"
    by (simp add: s'_def add_book_def session_add_def)
  have "0 \<le> limit p" using assms(2) by linarith
  then have all: "session_execute_select (limit p) (offset p) s' = Inr s'"
    using assms by (simp add: session_execute_select_def fits_int64_def s'_def)
  have g: "fst (get_books p s') = Inr (map to_BookGetSchema s')"
    by (simp add: get_books_def all)
  have m: "\<lparr>BookGetSchema.id' = next_id s, title = BookSchema.title book,
           author = BookSchema.author book\<rparr> \<in> set (map to_BookGetSchema s')"
    by (simp add: s' to_BookGetSchema_def)
  then have "\<exists>r \<in> set (map to_BookGetSchema s'). BookGetSchema.title r = BookSchema.title book
                        \<and> BookGetSchema.author r = BookSchema.author book"
    by (rule bexI [rotated]) simp
  with g m show ?thesis unfolding s'_def by blast
qed

theorem create_then_list_witness:
  "offset \<lparr>limit = 20, offset = 0\<rparr> = 0
   \<and> int (length (snd (add_book \<lparr>BookSchema.title = ''Dune'', author = ''Herbert''\<rparr> [])))
       \<le> limit \<lparr>limit = 20, offset = 0\<rparr>
   \<and> fst (get_books \<lparr>limit = 20, offset = 0\<rparr>
        (snd (add_book \<lparr>BookSchema.title = ''Dune'', author = ''Herbert''\<rparr> [])))
      = Inr [\<lparr>BookGetSchema.id' = 1, title = ''Dune'', author = ''Herbert''\<rparr>]
   \<and> limit \<lparr>limit = 20, offset = 0\<rparr> \<le> 9223372036854775807"
proof -
  let ?p = "\<lparr>limit = 20, offset = 0\<rparr>"
  let ?b = "\<lparr>BookSchema.title = ''Dune'', author = ''Herbert''\<rparr>"
  have h1: "offset ?p = 0" by simp
  have h2: "int (length (snd (add_book ?b []))) \<le> limit ?p"
    by (simp add: add_book_def session_add_def)
  have h3: "limit ?p \<le> 9223372036854775807" by simp
  from create_then_list [OF h1 h2 h3]
  obtain res where r: "fst (get_books ?p (snd (add_book ?b []))) = Inr res"
    and m: "\<lparr>BookGetSchema.id' = next_id [], title = BookSchema.title ?b,
           author = BookSchema.author ?b\<rparr> \<in> set res"
    by blast
  have "fst (get_books ?p (snd (add_book ?b [])))
      = Inr [\<lparr>BookGetSchema.id' = 1, title = ''Dune'', author = ''Herbert''\<rparr>]"
    by (simp add: get_books_def add_book_def session_add_def session_execute_select_def
        next_id_def to_BookGetSchema_def fits_int64_def)
  with h1 h2 h3 r m show ?thesis by simp
qed

text \<open>
  Claim C10. Nothing makes a title or an author unique: \<^verbatim>\<open>add_book\<close> run twice with
  the same body succeeds both times and appends two rows with that title and author,
  whose ids differ from each other and from every id the table had. Validation of the
  create body asks only that both fields are present strings, so a body with two empty
  strings is accepted and stored.
\<close>

theorem add_book_twice_distinct_records:
  "fst (add_book book s) = Inr book
   \<and> fst (add_book book (snd (add_book book s))) = Inr book
   \<and> snd (add_book book (snd (add_book book s)))
       = s @ [\<lparr>BookModel.id' = next_id s, title = BookSchema.title book,
               author = BookSchema.author book\<rparr>,
              \<lparr>BookModel.id' = next_id s + 1, title = BookSchema.title book,
               author = BookSchema.author book\<rparr>]
   \<and> next_id s \<noteq> next_id s + 1
   \<and> next_id s \<notin> set (map BookModel.id' s)
   \<and> next_id s + 1 \<notin> set (map BookModel.id' s)
   \<and> (validate_BookSchema body = Inr book) =
       (body ''title'' = Some (JStr (BookSchema.title book))
        \<and> body ''author'' = Some (JStr (BookSchema.author book)))
   \<and> POST_books [''title'' \<mapsto> JStr [], ''author'' \<mapsto> JStr []] s
       = (Inr \<lparr>BookSchema.title = [], author = []\<rparr>,
          s @ [\<lparr>BookModel.id' = next_id s, title = [], author = []\<rparr>])"
proof -
  have a1: "add_book book s = (Inr book, session_add (BookSchema.title book) (BookSchema.author book) s)"
    by (simp add: add_book_def)
  have a2: "snd (add_book book (snd (add_book book s)))
       = s @ [\<lparr>BookModel.id' = next_id s, title = BookSchema.title book,
               author = BookSchema.author book\<rparr>,
              \<lparr>BookModel.id' = next_id s + 1, title = BookSchema.title book,
               author = BookSchema.author book\<rparr>]"
    using next_id_session_add [of "BookSchema.title book" "BookSchema.author book" s]
    by (simp add: add_book_def) (simp add: session_add_def)
  have f1: "next_id s \<notin> set (map BookModel.id' s)"
    by (rule next_id_not_used)
  have f2: "next_id s + 1 \<notin> set (map BookModel.id' s)"
    using next_id_fresh [of _ s] by fastforce
  have v: "(validate_BookSchema body = Inr book) =
       (body ''title'' = Some (JStr (BookSchema.title book))
        \<and> body ''author'' = Some (JStr (BookSchema.author book)))"
    by (cases book) (auto simp: validate_BookSchema_def split: option.splits json.splits)
  have e: "POST_books [''title'' \<mapsto> JStr [], ''author'' \<mapsto> JStr []] s
       = (Inr \<lparr>BookSchema.title = [], author = []\<rparr>,
          s @ [\<lparr>BookModel.id' = next_id s, title = [], author = []\<rparr>])"
    by (simp add: POST_books_def validate_BookSchema_def add_book_def session_add_def)
  from a1 a2 f1 f2 v e show ?thesis by (simp add: add_book_def)
qed

theorem add_book_twice_distinct_records_witness:
  "snd (add_book \<lparr>BookSchema.title = ''Dune'', author = ''Herbert''\<rparr>
     (snd (add_book \<lparr>BookSchema.title = ''Dune'', author = ''Herbert''\<rparr> [])))
   = [\<lparr>BookModel.id' = 1, title = ''Dune'', author = ''Herbert''\<rparr>,
      \<lparr>BookModel.id' = 2, title = ''Dune'', author = ''Herbert''\<rparr>]
   \<and> POST_books [''title'' \<mapsto> JStr [], ''author'' \<mapsto> JStr []] []
       = (Inr \<lparr>BookSchema.title = [], author = []\<rparr>,
          [\<lparr>BookModel.id' = 1, title = [], author = []\<rparr>])"
  using add_book_twice_distinct_records
    [of "\<lparr>BookSchema.title = ''Dune'', author = ''Herbert''\<rparr>" "[]"]
  by (simp add: next_id_def)

section \<open>Delete\<close>

text \<open>
  Claim C4 (amended). For a book id that exists, \<^verbatim>\<open>delete_book\<close> returns the dictionary
  with the one key \<^verbatim>\<open>detail\<close>, whose text is the f-string of the source: its Russian
  literal up to \<^verbatim>\<open>id=\<close>, the decimal numeral of the deleted id, and the Russian
  literal for "deleted"; it is not the English text of the claim. The numeral reads back
  as the id, so the messages for two different ids differ.
\<close>

theorem delete_book_confirmation:
  assumes "session_get s book_id = Inr (Some b)"
  shows "fst (delete_book book_id s)
           = Inr [(''detail'', deleted_prefix @ str_int book_id @ deleted_suffix)]
       \<and> read_int (str_int book_id) = book_id
       \<and> (deleted_prefix @ str_int j @ deleted_suffix
            = deleted_prefix @ str_int book_id @ deleted_suffix) = (j = book_id)"
proof -
  have "fst (delete_book book_id s)
           = Inr [(''detail'', deleted_prefix @ str_int book_id @ deleted_suffix)]"
    using assms by (simp add: delete_book_def)
  moreover have "read_int (str_int book_id) = book_id"
    by (rule read_int_str_int)
  moreover have "(str_int j = str_int book_id) = (j = book_id)"
    using str_int_inj by blast
  ultimately show ?thesis by simp
qed

theorem delete_book_confirmation_witness:
  "session_get [\<lparr>BookModel.id' = 12, title = ''Dune'', author = ''Herbert''\<rparr>] 12
     = Inr (Some \<lparr>BookModel.id' = 12, title = ''Dune'', author = ''Herbert''\<rparr>)
   \<and> fst (delete_book 12 [\<lparr>BookModel.id' = 12, title = ''Dune'', author = ''Herbert''\<rparr>])
     = Inr [(''detail'',
        [CHR 0xD0, CHR 0x9A, CHR 0xD0, CHR 0xBD, CHR 0xD0, CHR 0xB8, CHR 0xD0, CHR 0xB3,
         CHR 0xD0, CHR 0xB0, CHR 0x20, CHR 0xD1, CHR 0x81, CHR 0x20] @ ''id=12'' @
        [CHR 0x20, CHR 0xD1, CHR 0x83, CHR 0xD0, CHR 0xB4, CHR 0xD0, CHR 0xB0, CHR 0xD0,
         CHR 0xBB, CHR 0xD0, CHR 0xB5, CHR 0xD0, CHR 0xBD, CHR 0xD0, CHR 0xB0])]"
proof -
  have h: "session_get [\<lparr>BookModel.id' = 12, title = ''Dune'', author = ''Herbert''\<rparr>] 12
     = Inr (Some \<lparr>BookModel.id' = 12, title = ''Dune'', author = ''Herbert''\<rparr>)"
    by (simp add: session_get_def fits_int64_def)
  have d: "str_int 12 = ''12''"
    by code_simp
  show ?thesis
    using h delete_book_confirmation [OF h]
    by (simp add: d deleted_prefix_def deleted_suffix_def)
qed

theorem delete_book_confirmation_counterexample:
  "session_get [\<lparr>BookModel.id' = 1, title = ''Dune'', author = ''Herbert''\<rparr>] 1
     = Inr (Some \<lparr>BookModel.id' = 1, title = ''Dune'', author = ''Herbert''\<rparr>)
   \<and> fst (delete_book 1 [\<lparr>BookModel.id' = 1, title = ''Dune'', author = ''Herbert''\<rparr>])
       \<noteq> Inr [(''detail'', ''book id=1 deleted'')]"
  by (simp add: session_get_def delete_book_def deleted_prefix_def fits_int64_def)

text \<open>
  Claim C5. For a book id that exists, \<^verbatim>\<open>delete_book\<close> succeeds, the record is absent
  from the table afterwards, and a second \<^verbatim>\<open>delete_book\<close> of the same id fails with
  status code 404 and changes nothing.
\<close>

theorem delete_twice_not_found:
  assumes "session_get s book_id = Inr (Some b)"
  shows "fst (delete_book book_id s)
           = Inr [(''detail'', deleted_prefix @ str_int book_id @ deleted_suffix)]
       \<and> session_get (snd (delete_book book_id s)) book_id = Inr None
       \<and> delete_book book_id (snd (delete_book book_id s))
           = (Inl (HTTPException 404 not_found_detail), snd (delete_book book_id s))"
proof -
  have idb: "BookModel.id' b = book_id"
    using assms session_get_SomeD by blast
  have d: "delete_book book_id s
      = (Inr [(''detail'', deleted_prefix @ str_int book_id @ deleted_suffix)], session_delete b s)"
    using assms by (simp add: delete_book_def)
  have g: "session_get (session_delete b s) book_id = Inr None"
    using idb assms by (simp add: session_get_delete)
  then have "delete_book book_id (session_delete b s)
      = (Inl (HTTPException 404 not_found_detail), session_delete b s)"
    by (simp add: delete_book_def)
  with d g show ?thesis by simp
qed

theorem delete_twice_not_found_witness:
  "session_get [\<lparr>BookModel.id' = 1, title = ''Dune'', author = ''Herbert''\<rparr>,
                \<lparr>BookModel.id' = 2, title = ''Emma'', author = ''Austen''\<rparr>] 1
     = Inr (Some \<lparr>BookModel.id' = 1, title = ''Dune'', author = ''Herbert''\<rparr>)
   \<and> snd (delete_book 1 [\<lparr>BookModel.id' = 1, title = ''Dune'', author = ''Herbert''\<rparr>,
                \<lparr>BookModel.id' = 2, title = ''Emma'', author = ''Austen''\<rparr>])
     = [\<lparr>BookModel.id' = 2, title = ''Emma'', author = ''Austen''\<rparr>]
   \<and> delete_book 1 [\<lparr>BookModel.id' = 2, title = ''Emma'', author = ''Austen''\<rparr>]
     = (Inl (HTTPException 404 not_found_detail),
        [\<lparr>BookModel.id' = 2, title = ''Emma'', author = ''Austen''\<rparr>])"
proof -
  have h: "session_get [\<lparr>BookModel.id' = 1, title = ''Dune'', author = ''Herbert''\<rparr>,
                \<lparr>BookModel.id' = 2, title = ''Emma'', author = ''Austen''\<rparr>] 1
     = Inr (Some \<lparr>BookModel.id' = 1, title = ''Dune'', author = ''Herbert''\<rparr>)"
    by (simp add: session_get_def fits_int64_def)
  have e: "snd (delete_book 1 [\<lparr>BookModel.id' = 1, title = ''Dune'', author = ''Herbert''\<rparr>,
                \<lparr>BookModel.id' = 2, title = ''Emma'', author = ''Austen''\<rparr>])
     = [\<lparr>BookModel.id' = 2, title = ''Emma'', author = ''Austen''\<rparr>]"
    by (simp add: delete_book_def session_get_def session_delete_def fits_int64_def)
  show ?thesis
    using h e delete_twice_not_found [OF h]
    by simp
qed

section \<open>List\<close>

text \<open>
  Claim C7. Without query parameters the pagination is limit 20 and offset 0. Accepted
  parameters satisfy 1 \<open>\<le>\<close> limit \<open>\<le>\<close> 100 and 0 \<open>\<le>\<close> offset and are the integers
  the query gave (or the defaults), and then the handler runs on them. A limit or an
  offset that is no integer or is out of range is rejected with the request-validation
  error, and the route returns it with the table as it was, without running the handler.
\<close>

theorem pagination_params_validated:
  "validate_PaginationParams to_int None None = Inr \<lparr>limit = 20, offset = 0\<rparr>
   \<and> (validate_PaginationParams to_int ql qo = Inr p \<longrightarrow>
        1 \<le> limit p \<and> limit p \<le> 100 \<and> 0 \<le> offset p
        \<and> (case ql of None \<Rightarrow> limit p = 20 | Some x \<Rightarrow> to_int x = Some (limit p))
        \<and> (case qo of None \<Rightarrow> offset p = 0 | Some y \<Rightarrow> to_int y = Some (offset p))
        \<and> GET_books to_int ql qo s = get_books p s)
   \<and> ((\<exists>x. ql = Some x \<and> (case to_int x of None \<Rightarrow> True | Some n \<Rightarrow> n < 1 \<or> 100 < n))
        \<or> (\<exists>y. qo = Some y \<and> (case to_int y of None \<Rightarrow> True | Some n \<Rightarrow> n < 0))
       \<longrightarrow> validate_PaginationParams to_int ql qo = Inl RequestValidationError
           \<and> GET_books to_int ql qo s = (Inl RequestValidationError, s))"
proof -
  have dflt: "validate_PaginationParams to_int None None = Inr \<lparr>limit = 20, offset = 0\<rparr>"
    by (simp add: validate_PaginationParams_def validate_limit_def validate_offset_def)
  have lim: "validate_limit to_int ql = Inr l \<Longrightarrow>
      1 \<le> l \<and> l \<le> 100 \<and> (case ql of None \<Rightarrow> l = 20 | Some x \<Rightarrow> to_int x = Some l)" for l
    by (auto simp: validate_limit_def split: option.splits if_splits)
  have off: "validate_offset to_int qo = Inr k \<Longrightarrow>
      0 \<le> k \<and> (case qo of None \<Rightarrow> k = 0 | Some y \<Rightarrow> to_int y = Some k)" for k
    by (auto simp: validate_offset_def split: option.splits if_splits)
  have split_ok: "validate_PaginationParams to_int ql qo = Inr p \<Longrightarrow>
      validate_limit to_int ql = Inr (limit p) \<and> validate_offset to_int qo = Inr (offset p)"
    by (auto simp: validate_PaginationParams_def split: sum.splits)
  have acc: "validate_PaginationParams to_int ql qo = Inr p \<longrightarrow>
        1 \<le> limit p \<and> limit p \<le> 100 \<and> 0 \<le> offset p
        \<and> (case ql of None \<Rightarrow> limit p = 20 | Some x \<Rightarrow> to_int x = Some (limit p))
        \<and> (case qo of None \<Rightarrow> offset p = 0 | Some y \<Rightarrow> to_int y = Some (offset p))
        \<and> GET_books to_int ql qo s = get_books p s"
  proof
    assume a: "validate_PaginationParams to_int ql qo = Inr p"
    from split_ok [OF a] lim off
    have "1 \<le> limit p \<and> limit p \<le> 100 \<and> 0 \<le> offset p
        \<and> (case ql of None \<Rightarrow> limit p = 20 | Some x \<Rightarrow> to_int x = Some (limit p))
        \<and> (case qo of None \<Rightarrow> offset p = 0 | Some y \<Rightarrow> to_int y = Some (offset p))"
      by blast
    moreover have "GET_books to_int ql qo s = get_books p s"
      using a by (simp add: GET_books_def)
    ultimately show "1 \<le> limit p \<and> limit p \<le> 100 \<and> 0 \<le> offset p
        \<and> (case ql of None \<Rightarrow> limit p = 20 | Some x \<Rightarrow> to_int x = Some (limit p))
        \<and> (case qo of None \<Rightarrow> offset p = 0 | Some y \<Rightarrow> to_int y = Some (offset p))
        \<and> GET_books to_int ql qo s = get_books p s"
      by blast
  qed
  have errs: "validate_limit to_int ql = Inl e \<Longrightarrow> e = RequestValidationError"
             "validate_offset to_int qo = Inl e \<Longrightarrow> e = RequestValidationError" for e
    by (auto simp: validate_limit_def validate_offset_def split: option.splits if_splits)
  have badl: "ql = Some x \<Longrightarrow> (case to_int x of None \<Rightarrow> True | Some n \<Rightarrow> n < 1 \<or> 100 < n)
      \<Longrightarrow> validate_limit to_int ql = Inl RequestValidationError" for x
    by (auto simp: validate_limit_def split: option.splits)
  have bado: "qo = Some y \<Longrightarrow> (case to_int y of None \<Rightarrow> True | Some n \<Rightarrow> n < 0)
      \<Longrightarrow> validate_offset to_int qo = Inl RequestValidationError" for y
    by (auto simp: validate_offset_def split: option.splits)
  have rej: "(\<exists>x. ql = Some x \<and> (case to_int x of None \<Rightarrow> True | Some n \<Rightarrow> n < 1 \<or> 100 < n))
        \<or> (\<exists>y. qo = Some y \<and> (case to_int y of None \<Rightarrow> True | Some n \<Rightarrow> n < 0))
       \<longrightarrow> validate_PaginationParams to_int ql qo = Inl RequestValidationError
           \<and> GET_books to_int ql qo s = (Inl RequestValidationError, s)"
  proof
    assume "(\<exists>x. ql = Some x \<and> (case to_int x of None \<Rightarrow> True | Some n \<Rightarrow> n < 1 \<or> 100 < n))
        \<or> (\<exists>y. qo = Some y \<and> (case to_int y of None \<Rightarrow> True | Some n \<Rightarrow> n < 0))"
    then have "validate_limit to_int ql = Inl RequestValidationError
        \<or> validate_offset to_int qo = Inl RequestValidationError"
      using badl bado by blast
    then have v: "validate_PaginationParams to_int ql qo = Inl RequestValidationError"
      using errs by (auto simp: validate_PaginationParams_def split: sum.splits)
    then show "validate_PaginationParams to_int ql qo = Inl RequestValidationError
           \<and> GET_books to_int ql qo s = (Inl RequestValidationError, s)"
      by (simp add: GET_books_def)
  qed
  from dflt acc rej show ?thesis by blast
qed

theorem pagination_params_validated_witness:
  "validate_PaginationParams
       (\<lambda>x. if x = ''7'' then Some 7 else if x = ''0'' then Some 0
            else if x = ''-1'' then Some (- 1) else None)
       (Some ''7'') None = Inr \<lparr>limit = 7, offset = 0\<rparr>
   \<and> GET_books
       (\<lambda>x. if x = ''7'' then Some 7 else if x = ''0'' then Some 0
            else if x = ''-1'' then Some (- 1) else None)
       (Some ''7'') None []
      = get_books \<lparr>limit = 7, offset = 0\<rparr> []
   \<and> GET_books
       (\<lambda>x. if x = ''7'' then Some 7 else if x = ''0'' then Some 0
            else if x = ''-1'' then Some (- 1) else None)
       (Some ''0'') None []
      = (Inl RequestValidationError, [])
   \<and> GET_books
       (\<lambda>x. if x = ''7'' then Some 7 else if x = ''0'' then Some 0
            else if x = ''-1'' then Some (- 1) else None)
       (Some ''ten'') None []
      = (Inl RequestValidationError, [])
   \<and> GET_books
       (\<lambda>x. if x = ''7'' then Some 7 else if x = ''0'' then Some 0
            else if x = ''-1'' then Some (- 1) else None)
       None (Some ''-1'') []
      = (Inl RequestValidationError, [])"
proof -
  let ?f = "\<lambda>x. if x = ''7'' then Some (7::int) else if x = ''0'' then Some 0
                else if x = ''-1'' then Some (- 1) else None"
  have ok: "validate_PaginationParams ?f (Some ''7'') None = Inr \<lparr>limit = 7, offset = 0\<rparr>"
    by (simp add: validate_PaginationParams_def validate_limit_def validate_offset_def)
  have b1: "\<exists>x. Some ''0'' = Some x \<and> (case ?f x of None \<Rightarrow> True | Some n \<Rightarrow> n < 1 \<or> 100 < n)"
    by simp
  have b2: "\<exists>x. Some ''ten'' = Some x \<and> (case ?f x of None \<Rightarrow> True | Some n \<Rightarrow> n < 1 \<or> 100 < n)"
    by simp
  have b3: "\<exists>y. Some ''-1'' = Some y \<and> (case ?f y of None \<Rightarrow> True | Some n \<Rightarrow> n < 0)"
    by simp
  from ok pagination_params_validated [of ?f "Some ''7''" None "\<lparr>limit = 7, offset = 0\<rparr>" "[]"]
  have g1: "GET_books ?f (Some ''7'') None [] = get_books \<lparr>limit = 7, offset = 0\<rparr> []"
    by blast
  from b1 pagination_params_validated [of ?f "Some ''0''" None _ "[]"]
  have g2: "GET_books ?f (Some ''0'') None [] = (Inl RequestValidationError, [])"
    by blast
  from b2 pagination_params_validated [of ?f "Some ''ten''" None _ "[]"]
  have g3: "GET_books ?f (Some ''ten'') None [] = (Inl RequestValidationError, [])"
    by blast
  from b3 pagination_params_validated [of ?f None "Some ''-1''" _ "[]"]
  have g4: "GET_books ?f None (Some ''-1'') [] = (Inl RequestValidationError, [])"
    by blast
  from ok g1 g2 g3 g4 show ?thesis by blast
qed

text \<open>
  Claim C8 (amended). For every table and pagination parameters with
  1 \<open>\<le>\<close> limit \<open>\<le>\<close> 100 and 0 \<open>\<le>\<close> offset, where the offset fits the engine's signed
  64-bit integer, \<^verbatim>\<open>get_books\<close> returns the rows after the first \<open>offset\<close> ones, in
  order, at most \<open>limit\<close> of them (exactly the smaller of \<open>limit\<close> and the number of
  rows left), the empty list when \<open>offset\<close> is at least the number of rows, and it
  leaves the table as it was. An offset of 2 to the power 63 passes the validation of
  the parameters and makes the select fail, as the counterexample shows.
\<close>

theorem get_books_page:
  assumes "1 \<le> limit p" and "limit p \<le> 100"
    and "0 \<le> offset p" and "offset p \<le> 9223372036854775807"
  shows "\<exists>res. get_books p s = (Inr res, s)
       \<and> int (length res) \<le> limit p
       \<and> length res = min (nat (limit p)) (length s - nat (offset p))
       \<and> (\<forall>i < length res. res ! i = to_BookGetSchema (s ! (nat (offset p) + i)))
       \<and> (int (length s) \<le> offset p \<longrightarrow> res = [])"
proof -
  define res where
    "res = map to_BookGetSchema (take (nat (limit p)) (drop (nat (offset p)) s))"
  have fits: "fits_int64 (limit p)" "fits_int64 (offset p)"
    using assms by (simp_all add: fits_int64_def)
  have g: "get_books p s = (Inr res, s)"
    using assms(1) fits by (simp add: get_books_def session_execute_select_def res_def)
  have len: "length res = min (nat (limit p)) (length s - nat (offset p))"
    by (simp add: res_def min.commute)
  have bound: "int (length res) \<le> limit p"
    using assms len by linarith
  have el: "\<forall>i < length res. res ! i = to_BookGetSchema (s ! (nat (offset p) + i))"
    by (auto simp: res_def)
  have emp: "int (length s) \<le> offset p \<longrightarrow> res = []"
    using assms by (simp add: res_def)
  from g len bound el emp show ?thesis by blast
qed

theorem get_books_page_witness:
  "(1::int) \<le> limit \<lparr>limit = 1, offset = 1\<rparr> \<and> limit \<lparr>limit = 1, offset = 1\<rparr> \<le> 100
   \<and> 0 \<le> offset \<lparr>limit = 1, offset = 1\<rparr>
   \<and> offset \<lparr>limit = 1, offset = 1\<rparr> \<le> 9223372036854775807
   \<and> get_books \<lparr>limit = 1, offset = 1\<rparr>
        [\<lparr>BookModel.id' = 1, title = ''Dune'', author = ''Herbert''\<rparr>,
         \<lparr>BookModel.id' = 2, title = ''Emma'', author = ''Austen''\<rparr>,
         \<lparr>BookModel.id' = 3, title = ''Ulysses'', author = ''Joyce''\<rparr>]
      = (Inr [\<lparr>BookGetSchema.id' = 2, title = ''Emma'', author = ''Austen''\<rparr>],
         [\<lparr>BookModel.id' = 1, title = ''Dune'', author = ''Herbert''\<rparr>,
          \<lparr>BookModel.id' = 2, title = ''Emma'', author = ''Austen''\<rparr>,
          \<lparr>BookModel.id' = 3, title = ''Ulysses'', author = ''Joyce''\<rparr>])"
proof -
  let ?p = "\<lparr>limit = 1, offset = 1\<rparr>"
  let ?s = "[\<lparr>BookModel.id' = 1, title = ''Dune'', author = ''Herbert''\<rparr>,
         \<lparr>BookModel.id' = 2, title = ''Emma'', author = ''Austen''\<rparr>,
         \<lparr>BookModel.id' = 3, title = ''Ulysses'', author = ''Joyce''\<rparr>]"
  have h1: "1 \<le> limit ?p" and h2: "limit ?p \<le> 100" and h3: "0 \<le> offset ?p"
    and h4: "offset ?p \<le> 9223372036854775807"
    by simp_all
  from get_books_page [OF h1 h2 h3 h4, of ?s]
  obtain res where r: "get_books ?p ?s = (Inr res, ?s)"
    and l: "length res = min (nat (limit ?p)) (length ?s - nat (offset ?p))"
    and e: "\<forall>i < length res. res ! i = to_BookGetSchema (?s ! (nat (offset ?p) + i))"
    by blast
  from l have l1: "length res = 1" by simp
  with e have "res ! 0 = to_BookGetSchema (?s ! (nat (offset ?p) + 0))" by simp
  then have "res ! 0 = \<lparr>BookGetSchema.id' = 2, title = ''Emma'', author = ''Austen''\<rparr>"
    by (simp add: to_BookGetSchema_def)
  with l1 have "res = [\<lparr>BookGetSchema.id' = 2, title = ''Emma'', author = ''Austen''\<rparr>]"
    by (cases res) simp_all
  with r h1 h2 h3 h4 show ?thesis by simp
qed

theorem get_books_page_counterexample:
  "(1::int) \<le> limit \<lparr>limit = 20, offset = 9223372036854775808\<rparr>
   \<and> limit \<lparr>limit = 20, offset = 9223372036854775808\<rparr> \<le> 100
   \<and> 0 \<le> offset \<lparr>limit = 20, offset = 9223372036854775808\<rparr>
   \<and> int (length ([] :: BookModel list)) \<le> offset \<lparr>limit = 20, offset = 9223372036854775808\<rparr>
   \<and> validate_PaginationParams
         (\<lambda>x. if x = ''9223372036854775808'' then Some 9223372036854775808 else None)
         None (Some ''9223372036854775808'')
       = Inr \<lparr>limit = 20, offset = 9223372036854775808\<rparr>
   \<and> get_books \<lparr>limit = 20, offset = 9223372036854775808\<rparr> [] = (Inl OverflowError, [])
   \<and> fst (get_books \<lparr>limit = 20, offset = 9223372036854775808\<rparr> []) \<noteq> Inr []"
  by (simp add: get_books_def session_execute_select_def fits_int64_def
      validate_PaginationParams_def validate_limit_def validate_offset_def)

end
